theory Spec2Isabelle
  imports Complex_Main "HOL-Library.Sublist"
begin

section \<open>Python text\<close>

text \<open>
  A Python \<open>str\<close> is a sequence of code points. It is modelled by its UTF-8 encoding, a
  \<open>string\<close> of bytes, which is also what reaches the output stream and the files; the
  operations that count or classify characters decode it first. Searching for a substring,
  testing a prefix and splitting at an ASCII character give the same result on the encoding
  as on the code points.
\<close>

definition is_ascii :: "char \<Rightarrow> bool" where
  "is_ascii c = ((of_char c :: nat) < 128)"

definition utf8_lead :: "nat \<Rightarrow> nat" where
  "utf8_lead n =
     (if n < 0x80 then n else if n < 0xE0 then n - 0xC0 else if n < 0xF0 then n - 0xE0
      else n - 0xF0)"

text \<open>The code points of an encoded text; \<open>acc\<close> is the code point being read.\<close>

fun utf8_decode_from :: "nat \<Rightarrow> string \<Rightarrow> nat list" where
  "utf8_decode_from acc [] = [acc]"
| "utf8_decode_from acc (b # bs) =
     (if 0x80 \<le> (of_char b :: nat) \<and> (of_char b :: nat) < 0xC0
      then utf8_decode_from (acc * 64 + (of_char b - 0x80)) bs
      else acc # utf8_decode_from (utf8_lead (of_char b)) bs)"

definition utf8_decode :: "string \<Rightarrow> nat list" where
  "utf8_decode s = (case s of [] \<Rightarrow> [] | b # bs \<Rightarrow> utf8_decode_from (utf8_lead (of_char b)) bs)"

definition utf8_encode_point :: "nat \<Rightarrow> string" where
  "utf8_encode_point n =
     (if n < 0x80 then [char_of n]
      else if n < 0x800 then [char_of (0xC0 + n div 64), char_of (0x80 + n mod 64)]
      else if n < 0x10000
      then [char_of (0xE0 + n div 4096), char_of (0x80 + n div 64 mod 64),
            char_of (0x80 + n mod 64)]
      else [char_of (0xF0 + n div 262144), char_of (0x80 + n div 4096 mod 64),
            char_of (0x80 + n div 64 mod 64), char_of (0x80 + n mod 64)])"

definition utf8_encode :: "nat list \<Rightarrow> string" where
  "utf8_encode ns = concat (map utf8_encode_point ns)"

subsection \<open>Lower case\<close>

text \<open>
  \<open>s.lower()\<close> maps each code point to its lower-case form, except the Greek capital
  sigma U+03A3, which becomes the final sigma U+03C2 when a cased letter stands before it
  and none after it (case-ignorable characters skipped on both sides) and the small sigma
  U+03C3 otherwise. The tables below cover the ASCII characters and the Greek letters
  U+0391 to U+03A9 and U+03B1 to U+03C9; on text of these characters \<open>lower\<close> is what
  Python computes, and other code points are left as they are.
\<close>

definition ascii_uppercase :: string where
  "ascii_uppercase = ''ABCDEFGHIJKLMNOPQRSTUVWXYZ''"

definition ascii_lowercase :: string where
  "ascii_lowercase = ''abcdefghijklmnopqrstuvwxyz''"

definition lower_char :: "char \<Rightarrow> char" where
  "lower_char c =
     (case map_of (zip ascii_uppercase ascii_lowercase) c of None \<Rightarrow> c | Some l \<Rightarrow> l)"

definition is_cased :: "nat \<Rightarrow> bool" where
  "is_cased n =
     ((0x41 \<le> n \<and> n \<le> 0x5A) \<or> (0x61 \<le> n \<and> n \<le> 0x7A) \<or> (0x391 \<le> n \<and> n \<le> 0x3A1) \<or>
      (0x3A3 \<le> n \<and> n \<le> 0x3A9) \<or> (0x3B1 \<le> n \<and> n \<le> 0x3C9))"

definition is_case_ignorable :: "nat \<Rightarrow> bool" where
  "is_case_ignorable n = (n \<in> set [0x27, 0x2E, 0x3A, 0x5E, 0x60])"

definition lower_point :: "nat \<Rightarrow> nat" where
  "lower_point n =
     (if n < 0x80 then of_char (lower_char (char_of n))
      else if (0x391 \<le> n \<and> n \<le> 0x3A1) \<or> (0x3A3 \<le> n \<and> n \<le> 0x3A9) then n + 32
      else n)"

text \<open>
  Whether a capital sigma is final: \<open>before\<close> holds the code points in front of it,
  nearest first, and \<open>after\<close> those behind it.
\<close>

definition final_sigma :: "nat list \<Rightarrow> nat list \<Rightarrow> bool" where
  "final_sigma before after =
     ((case dropWhile is_case_ignorable before of [] \<Rightarrow> False | c # cs \<Rightarrow> is_cased c) \<and>
      (case dropWhile is_case_ignorable after of [] \<Rightarrow> True | c # cs \<Rightarrow> \<not> is_cased c))"

fun lower_points :: "nat list \<Rightarrow> nat list \<Rightarrow> nat list" where
  "lower_points before [] = []"
| "lower_points before (c # cs) =
     (if c = 0x3A3 then (if final_sigma before cs then 0x3C2 else 0x3C3) else lower_point c) #
     lower_points (c # before) cs"

text \<open>\<open>s.lower()\<close>\<close>

definition lower :: "string \<Rightarrow> string" where
  "lower s = utf8_encode (lower_points [] (utf8_decode s))"

subsection \<open>Searching, splitting, padding\<close>

text \<open>\<open>s.startswith(p)\<close>\<close>

fun startswith :: "string \<Rightarrow> string \<Rightarrow> bool" where
  "startswith s [] = True"
| "startswith [] (p # ps) = False"
| "startswith (c # cs) (p # ps) = (c = p \<and> startswith cs ps)"

text \<open>\<open>sub in s\<close>\<close>

fun str_contains :: "string \<Rightarrow> string \<Rightarrow> bool" where
  "str_contains [] sub = (sub = [])"
| "str_contains (c # cs) sub = (startswith (c # cs) sub \<or> str_contains cs sub)"

text \<open>\<open>s.split(sep)\<close> for a one-character separator: never an empty list.\<close>

fun str_split :: "char \<Rightarrow> string \<Rightarrow> string list" where
  "str_split sep [] = [[]]"
| "str_split sep (c # cs) =
     (if c = sep then [] # str_split sep cs
      else (let ps = str_split sep cs in (c # hd ps) # tl ps))"

text \<open>\<open>s.split(sep, n)\<close>: at most \<open>n\<close> cuts, the rest of the text stays whole.\<close>

fun str_split_max :: "char \<Rightarrow> nat \<Rightarrow> string \<Rightarrow> string list" where
  "str_split_max sep n [] = [[]]"
| "str_split_max sep 0 (c # cs) = [c # cs]"
| "str_split_max sep (Suc n) (c # cs) =
     (if c = sep then [] # str_split_max sep n cs
      else (let ps = str_split_max sep (Suc n) cs in (c # hd ps) # tl ps))"

text \<open>The code points for which \<open>str.isspace\<close> holds.\<close>

definition is_space :: "nat \<Rightarrow> bool" where
  "is_space n =
     (n \<in> set [0x09, 0x0A, 0x0B, 0x0C, 0x0D, 0x1C, 0x1D, 0x1E, 0x1F, 0x20, 0x85, 0xA0, 0x1680,
               0x2028, 0x2029, 0x202F, 0x205F, 0x3000] \<or>
      (0x2000 \<le> n \<and> n \<le> 0x200A))"

text \<open>\<open>s.strip()\<close>\<close>

definition strip :: "string \<Rightarrow> string" where
  "strip s = utf8_encode (rev (dropWhile is_space (rev (dropWhile is_space (utf8_decode s)))))"

text \<open>
  The format specification \<open><n\<close>: pad with spaces on the right up to \<open>n\<close> code points.
\<close>

definition ljust :: "nat \<Rightarrow> string \<Rightarrow> string" where
  "ljust n s = s @ replicate (n - length (utf8_decode s)) (CHR '' '')"

text \<open>\<open>xs[i:]\<close>, with Python's reading of a negative start.\<close>

definition slice_from :: "int \<Rightarrow> 'a list \<Rightarrow> 'a list" where
  "slice_from i xs =
     (let n = int (length xs);
          j = (if i < 0 then max (n + i) 0 else min i n)
      in drop (nat j) xs)"

text \<open>\<open>sep.join(parts)\<close>\<close>

fun join :: "string \<Rightarrow> string list \<Rightarrow> string" where
  "join sep [] = []"
| "join sep [p] = p"
| "join sep (p # q # ps) = p @ sep @ join sep (q # ps)"

section \<open>Numbers as text\<close>

definition digit_char :: "nat \<Rightarrow> char" where
  "digit_char n = ''0123456789abcdef'' ! (n mod 16)"

text \<open>\<open>str(n)\<close> for a natural number.\<close>

function str_nat :: "nat \<Rightarrow> string" where
  "str_nat n = (if n < 10 then [digit_char n] else str_nat (n div 10) @ [digit_char (n mod 10)])"
  by pat_completeness auto
termination
  by (relation "measure id") auto

declare str_nat.simps [simp del]

definition str_int :: "int \<Rightarrow> string" where
  "str_int i = (if i < 0 then CHR ''-'' # str_nat (nat (- i)) else str_nat (nat i))"

text \<open>The conversion \<open>%0wd\<close>: decimal digits, padded with zeros on the left to width \<open>w\<close>.\<close>

definition zero_pad :: "nat \<Rightarrow> nat \<Rightarrow> string" where
  "zero_pad w n = replicate (w - length (str_nat n)) (CHR ''0'') @ str_nat n"

text \<open>
  The program's floating-point numbers are the decimal literals 0.91, 0.83, 0.76, 0.9 and
  0.85; it compares them and prints them and never computes with them. They are modelled
  by the rationals they denote: rounding to the nearest double is monotone and keeps
  these five apart, so every comparison agrees, and the shortest text that reads back as the
  double of such a literal is the literal. \<open>float_repr\<close> writes the decimal expansion,
  with at least one and at most 17 digits after the point: that is Python's \<open>repr\<close> at
  these literals and not in general (Python writes \<open>1e-05\<close>, and rounds what does not
  end). The results below use \<open>float_repr\<close> at 0.91 only.
\<close>

fun frac_digits :: "nat \<Rightarrow> rat \<Rightarrow> string" where
  "frac_digits 0 q = []"
| "frac_digits (Suc k) q =
     (if q = 0 then []
      else digit_char (nat \<lfloor>q * 10\<rfloor>) # frac_digits k (q * 10 - of_int \<lfloor>q * 10\<rfloor>))"

definition float_repr :: "rat \<Rightarrow> string" where
  "float_repr q =
     (let a = \<bar>q\<bar>;
          ds = frac_digits 17 (a - of_int \<lfloor>a\<rfloor>)
      in (if q < 0 then ''-'' else []) @ str_nat (nat \<lfloor>a\<rfloor>) @ ''.'' @
         (if ds = [] then ''0'' else ds))"

section \<open>Dates\<close>

record datetime =
  year :: nat
  month :: nat
  day :: nat
  hour :: nat
  minute :: nat
  second :: nat
  microsecond :: nat

text \<open>\<open>d.isoformat()\<close>: the microseconds are written only when they are not zero.\<close>

definition isoformat :: "datetime \<Rightarrow> string" where
  "isoformat d =
     zero_pad 4 (year d) @ ''-'' @ zero_pad 2 (month d) @ ''-'' @ zero_pad 2 (day d) @ ''T'' @
     zero_pad 2 (hour d) @ '':'' @ zero_pad 2 (minute d) @ '':'' @ zero_pad 2 (second d) @
     (if microsecond d = 0 then [] else ''.'' @ zero_pad 6 (microsecond d))"

section \<open>JSON text\<close>

datatype json =
    JString string
  | JFloat rat
  | JInt int
  | JArray "json list"
  | JObject "(string \<times> json) list"

text \<open>
  \<open>json.dumps\<close> escapes the quote, the backslash and every code point outside the
  printable ASCII range (\<open>ensure_ascii\<close> is on), those beyond U+FFFF as a surrogate
  pair.
\<close>

definition hex4 :: "nat \<Rightarrow> string" where
  "hex4 n = [digit_char (n div 4096), digit_char (n div 256), digit_char (n div 16), digit_char n]"

definition json_escape_point :: "nat \<Rightarrow> string" where
  "json_escape_point n =
     (if n = 0x22 then [CHR 0x5C, CHR 0x22]
      else if n = 0x5C then [CHR 0x5C, CHR 0x5C]
      else if n = 0x0A then [CHR 0x5C, CHR ''n'']
      else if n = 0x0D then [CHR 0x5C, CHR ''r'']
      else if n = 0x09 then [CHR 0x5C, CHR ''t'']
      else if n = 0x08 then [CHR 0x5C, CHR ''b'']
      else if n = 0x0C then [CHR 0x5C, CHR ''f'']
      else if 32 \<le> n \<and> n \<le> 126 then [char_of n]
      else if n < 0x10000 then [CHR 0x5C, CHR ''u''] @ hex4 n
      else [CHR 0x5C, CHR ''u''] @ hex4 (0xD800 + (n - 0x10000) div 1024) @
           [CHR 0x5C, CHR ''u''] @ hex4 (0xDC00 + (n - 0x10000) mod 1024))"

definition json_string :: "string \<Rightarrow> string" where
  "json_string s = [CHR 0x22] @ concat (map json_escape_point (utf8_decode s)) @ [CHR 0x22]"

definition newline_indent :: "nat \<Rightarrow> nat \<Rightarrow> string" where
  "newline_indent indent level = CHR 0x0A # replicate (indent * level) (CHR '' '')"

text \<open>\<open>json.dumps(v, indent=indent)\<close>, at nesting depth \<open>level\<close>.\<close>

fun dumps_at :: "nat \<Rightarrow> nat \<Rightarrow> json \<Rightarrow> string" where
  "dumps_at indent level (JString s) = json_string s"
| "dumps_at indent level (JFloat q) = float_repr q"
| "dumps_at indent level (JInt i) = str_int i"
| "dumps_at indent level (JArray vs) =
     (if vs = [] then ''[]''
      else ''['' @ newline_indent indent (Suc level) @
           join ('','' @ newline_indent indent (Suc level))
                (map (dumps_at indent (Suc level)) vs) @
           newline_indent indent level @ '']'')"
| "dumps_at indent level (JObject kvs) =
     (if kvs = [] then ''{}''
      else ''{'' @ newline_indent indent (Suc level) @
           join ('','' @ newline_indent indent (Suc level))
                (map (\<lambda>kv. json_string (fst kv) @ '': '' @ dumps_at indent (Suc level) (snd kv)) kvs) @
           newline_indent indent level @ ''}'')"

definition json_dumps :: "nat \<Rightarrow> json \<Rightarrow> string" where
  "json_dumps indent v = dumps_at indent 0 v"

section \<open>The world outside the program\<close>

text \<open>
  What one pass of the program reads from its surroundings: the platform, the clock, the
  identifier \<open>uuid.uuid4()\<close> draws, whether the record's file can be opened for writing
  and the index \<open>random.choice\<close> picks.
\<close>

record env =
  platform_system :: string
  platform_platform :: string
  python_version :: string
  time_of_day :: string
  day_of_week :: string
  uuid4 :: string
  now :: datetime
  can_write :: bool
  random_index :: nat

text \<open>The record \<open>Memory.anchor\<close> builds: a dictionary with six fixed keys.\<close>

record session_record =
  id' :: string
  timestamp :: string
  goal :: string
  module :: string
  score :: rat
  justification :: string

text \<open>The class \<open>Memory\<close>; an \<open>AndromedaKernel\<close> holds one \<open>Memory\<close> and nothing else.\<close>

record Memory =
  records :: "session_record list"

text \<open>
  The state a run changes: the kernel's memory, the chunks of text written to the standard
  output so far, and the files of the working directory by name.
\<close>

record world =
  memory :: Memory
  stdout :: "string list"
  files :: "string \<rightharpoonup> string"

datatype py_error = OSError | ValueError | EOFError

datatype pyvalue = PyNone | PyRecord session_record

text \<open>
  A call either returns a value or raises; either way the changes it made so far stay.
\<close>

datatype 'a result = Return 'a world | Raise py_error world

fun world_of :: "'a result \<Rightarrow> world" where
  "world_of (Return v w) = w"
| "world_of (Raise e w) = w"


text \<open>\<open>print(s)\<close> writes the text and a newline.\<close>

definition print :: "string \<Rightarrow> world \<Rightarrow> world" where
  "print s w = w\<lparr>stdout := stdout w @ [s @ [CHR 0x0A]]\<rparr>"

text \<open>One \<open>print\<close> after the other.\<close>

fun prints :: "string list \<Rightarrow> world \<Rightarrow> world" where
  "prints [] w = w"
| "prints (s # ss) w = prints ss (print s w)"

subsection \<open>Glyphs of the output, as UTF-8\<close>

definition en_dash :: string where "en_dash = [CHR 0xE2, CHR 0x80, CHR 0x93]"
definition arrow :: string where "arrow = [CHR 0xE2, CHR 0x86, CHR 0x92]"
definition star4 :: string where "star4 = [CHR 0xE2, CHR 0x9C, CHR 0xA6]"
definition warning_sign :: string where "warning_sign = [CHR 0xE2, CHR 0x9A, CHR 0xA0]"
definition box_h :: string where "box_h = [CHR 0xE2, CHR 0x94, CHR 0x80]"
definition box_v :: string where "box_v = [CHR 0xE2, CHR 0x94, CHR 0x82]"
definition box_tl :: string where "box_tl = [CHR 0xE2, CHR 0x94, CHR 0x8C]"
definition box_tr :: string where "box_tr = [CHR 0xE2, CHR 0x94, CHR 0x90]"
definition box_bl :: string where "box_bl = [CHR 0xE2, CHR 0x94, CHR 0x94]"
definition box_br :: string where "box_br = [CHR 0xE2, CHR 0x94, CHR 0x98]"
definition ledger :: string where "ledger = [CHR 0xF0, CHR 0x9F, CHR 0x93, CHR 0x92]"
definition test_tube :: string where "test_tube = [CHR 0xF0, CHR 0x9F, CHR 0xA7, CHR 0xAA]"
definition globe :: string where "globe = [CHR 0xF0, CHR 0x9F, CHR 0x8C, CHR 0x8D]"
definition mirror :: string where "mirror = [CHR 0xF0, CHR 0x9F, CHR 0xAA, CHR 0x9E]"

section \<open>Utilities\<close>

definition sense_environment :: "env \<Rightarrow> world \<Rightarrow> (string \<times> string) list \<times> world" where
  "sense_environment e w =
     (let d = [(''os'', platform_system e), (''platform'', platform_platform e),
               (''python_version'', python_version e), (''time_of_day'', time_of_day e),
               (''day_of_week'', day_of_week e)]
      in (d, prints (''[SENSE] Environment Detected:'' #
                     map (\<lambda>kv. ''  - '' @ fst kv @ '': '' @ snd kv) d) w))"

record understanding =
  intent :: string
  goal_class :: string
  urgency :: string
  tone :: string

definition llm_understand :: "string \<Rightarrow> understanding" where
  "llm_understand prompt =
     \<lparr>intent = ''build educational chatbot'', goal_class = ''tutoring'',
      urgency = ''medium'', tone = ''logical''\<rparr>"

record match =
  primary_module :: string
  backup_module :: string
  match_score :: rat
  match_justification :: string

definition candidates :: "(string \<times> rat) list" where
  "candidates = [(''flow.study'', 91 / 100), (''quiz.kernel'', 83 / 100),
                 (''feedback.kernel'', 76 / 100)]"

text \<open>
  \<open>sorted(..., key=lambda x: x[1], reverse=True)\<close>: a stable sort, largest score first.
  The table has three entries, so the first and the second of the sorted list exist.
\<close>

definition llm_match :: "string \<Rightarrow> match" where
  "llm_match gc =
     (let sorted_candidates = sort_key (\<lambda>x. - snd x) candidates;
          primary = sorted_candidates ! 0;
          backup = sorted_candidates ! 1
      in \<lparr>primary_module = fst primary, backup_module = fst backup,
          match_score = snd primary,
          match_justification =
            ''Matched '' @ fst primary @ '' for goal_class '' @ [CHR 0x27] @ gc @ [CHR 0x27] @
            '' with confidence '' @ float_repr (snd primary)\<rparr>)"

definition scaffolds :: "(string \<times> string list) list" where
  "scaffolds =
     [(''flow.study'', [ledger @ '' Step 1: Define topic goal'',
                        test_tube @ '' Step 2: Ask a test question'',
                        globe @ '' Step 3: Apply concept'', mirror @ '' Step 4: Reflect'']),
      (''quiz.kernel'', [ledger @ '' Generate quiz'', test_tube @ '' Grade'',
                         mirror @ '' Reflect'']),
      (''feedback.kernel'', [ledger @ '' Analyze logs'', test_tube @ '' Detect confusion'',
                             mirror @ '' Redirect''])]"

definition tutor_preview :: "string \<Rightarrow> world \<Rightarrow> world" where
  "tutor_preview m w =
     prints ((''[TUTOR] Scaffold preview for '' @ m @ '':'') #
             map (\<lambda>step. ''  - '' @ step)
                 (case map_of scaffolds m of None \<Rightarrow> [''[No preview available]'']
                  | Some steps \<Rightarrow> steps)) w"

definition trace_execution :: "string \<Rightarrow> string \<Rightarrow> world \<Rightarrow> world" where
  "trace_execution g m w =
     prints [''[TRACE] Execution path for goal '' @ [CHR 0x27] @ g @ [CHR 0x27] @ '':'',
             arrow @ '' INIT goal='' @ [CHR 0x27] @ g @ [CHR 0x27],
             arrow @ '' SELECT module='' @ [CHR 0x27] @ m @ [CHR 0x27],
             arrow @ '' VALIDATE confidence threshold'',
             arrow @ '' ANCHOR memory entry'',
             arrow @ '' (Future) EXECUTE module logic''] w"

definition reflect_outcome :: "string \<Rightarrow> string \<Rightarrow> world \<Rightarrow> world" where
  "reflect_outcome g m w =
     prints [''[REFLECT] Reviewing execution of module '' @ [CHR 0x27] @ m @ [CHR 0x27] @
               '' for goal '' @ [CHR 0x27] @ g @ [CHR 0x27],
             ''[REFLECT] Did the execution align with user intent?'',
             ''[REFLECT] '' @ star4 @ '' Reflection recorded.''] w"

definition detect_mode :: "string \<Rightarrow> string" where
  "detect_mode prompt =
     (if list_ex (str_contains (lower prompt)) [''experiment'', ''test'']
      then ''@mode.experimental''
      else if list_ex (str_contains (lower prompt)) [''plan'', ''schedule'']
      then ''@mode.planner''
      else if list_ex (str_contains (lower prompt)) [''debug'', ''analyze'']
      then ''@mode.diagnostic''
      else ''@mode.default'')"

definition avatar_switch :: "string \<Rightarrow> string" where
  "avatar_switch mode =
     (case map_of [(''@mode.experimental'', ''The Alchemist''),
                   (''@mode.planner'', ''The Architect''),
                   (''@mode.diagnostic'', ''The Analyst''),
                   (''@mode.default'', ''The Companion'')] mode of
        None \<Rightarrow> ''The Companion'' | Some a \<Rightarrow> a)"

definition meta_mutate :: "string \<Rightarrow> string \<Rightarrow> rat \<Rightarrow> world \<Rightarrow> world" where
  "meta_mutate g m s w =
     (let w1 = print (''[MUTATE] Evaluating adaptive mutation for module: '' @ m) w
      in if s < 85 / 100 then print ''[MUTATE] Confidence low. Suggesting reassessment.'' w1
         else print ''[MUTATE] Confidence high. Flow integrity confirmed.'' w1)"

definition sandbox_bridge :: "string \<Rightarrow> world \<Rightarrow> world" where
  "sandbox_bridge m w =
     prints [''[SANDBOX] Entering simulation space for module: '' @ m,
             ''[SANDBOX] No external APIs called. Dry-run engaged.''] w"

definition record_json :: "session_record \<Rightarrow> json" where
  "record_json r =
     JObject [(''id'', JString (id' r)), (''timestamp'', JString (timestamp r)),
              (''goal'', JString (goal r)), (''module'', JString (module r)),
              (''score'', JFloat (score r)), (''justification'', JString (justification r))]"

text \<open>
  \<open>export_docs\<close> opens the file for writing, which raises when the medium refuses, and
  then writes the record and reports the file's name.
\<close>

definition export_docs :: "env \<Rightarrow> session_record \<Rightarrow> world \<Rightarrow> pyvalue result" where
  "export_docs e r w =
     (let fn = ''andromeda_log_'' @ take 8 (id' r) @ ''.json''
      in if can_write e
         then Return PyNone
                (print (''[EXPORT] Session archived to '' @ fn)
                   (w\<lparr>files := (files w)(fn \<mapsto> json_dumps 2 (record_json r))\<rparr>))
         else Raise OSError w)"

definition flow_row :: "session_record \<Rightarrow> string" where
  "flow_row r =
     box_v @ '' '' @ hd (str_split (CHR ''T'') (timestamp r)) @ '' '' @ arrow @ '' '' @
     ljust 20 (module r) @ '' '' @ box_v"

definition map_flows :: "session_record list \<Rightarrow> world \<Rightarrow> world" where
  "map_flows rs w =
     print (box_bl @ concat (replicate 32 box_h) @ box_br)
       (prints (map flow_row (slice_from (- 5) rs))
          (prints [''[MAP] Rendering symbolic flow map:'',
                   box_tl @ concat (replicate 32 box_h) @ box_tr] w))"

definition chaos_events :: "string list" where
  "chaos_events = [''Recursive goal loop'', ''Token saturation'', ''quiz.kernel drift'',
                   ''reflection overload'']"

definition chaos_kernel :: "env \<Rightarrow> world \<Rightarrow> world" where
  "chaos_kernel e w =
     prints [''[CHAOS] Injecting perturbation event...'',
             ''[CHAOS] '' @ warning_sign @ '' '' @
               chaos_events ! (random_index e mod length chaos_events),
             ''[CHAOS] '' @ star4 @ '' Kernel integrity holding.''] w"

definition plugin_install :: "world \<Rightarrow> world" where
  "plugin_install w =
     (let schema = JObject [(''plugin'', JString ''focus_timer''), (''type'', JString ''utility''),
                            (''commands'', JArray [JString ''start'', JString ''pause'',
                                                   JString ''stop'']),
                            (''timeout'', JInt 25)]
      in prints [''[PLUGIN] Plugin schema validated:'', json_dumps 2 schema,
                 ''[PLUGIN] Plugin '' @ [CHR 0x27] @ ''focus_timer'' @ [CHR 0x27] @
                   '' installed.''] w)"

definition edit_scaffold :: "string \<Rightarrow> string \<Rightarrow> world \<Rightarrow> world" where
  "edit_scaffold m step w =
     prints [''[DEV] Injecting into '' @ [CHR 0x27] @ m @ [CHR 0x27] @ '': '' @ step,
             ''[DEV] (Simulated patch success)''] w"

section \<open>Calls in sequence\<close>

text \<open>Falling off the end of a function returns \<open>None\<close>.\<close>

definition return_none :: "world \<Rightarrow> pyvalue result" where
  "return_none w = Return PyNone w"

text \<open>
  A call made as a statement: its value is dropped and the next statement runs, unless
  the call raised, which ends the enclosing function as well.
\<close>

fun and_then :: "'a result \<Rightarrow> (world \<Rightarrow> 'b result) \<Rightarrow> 'b result" where
  "and_then (Return v w) f = f w"
| "and_then (Raise e w) f = Raise e w"

section \<open>Memory kernel\<close>

text \<open>
  \<open>Memory.anchor\<close> appends the record before it prints and exports it, and has no
  \<open>return\<close> statement.
\<close>

definition anchor ::
  "env \<Rightarrow> string \<Rightarrow> string \<Rightarrow> rat \<Rightarrow> string \<Rightarrow> world \<Rightarrow> pyvalue result" where
  "anchor e g m s j w =
     (let r = \<lparr>id' = uuid4 e, timestamp = isoformat (now e), goal = g, module = m, score = s,
               justification = j\<rparr>;
          w1 = w\<lparr>memory := (memory w)\<lparr>records := records (memory w) @ [r]\<rparr>\<rparr>;
          w2 = print (''[ANCHOR] '' @ json_dumps 2 (record_json r)) w1
      in and_then (export_docs e r w2) return_none)"

text \<open>The list comprehension of \<open>Memory.recall\<close>.\<close>

definition recall_matches :: "string \<Rightarrow> session_record list \<Rightarrow> session_record list" where
  "recall_matches query rs = filter (\<lambda>r. str_contains (lower (goal r)) (lower query)) rs"

definition recall :: "string \<Rightarrow> world \<Rightarrow> pyvalue result" where
  "recall query w =
     (let w1 = print (''[RECALL] Searching for: '' @ query) w;
          matches = recall_matches query (records (memory w));
          w2 = prints (map (\<lambda>m. json_dumps 2 (record_json m)) matches) w1
      in return_none (if matches = [] then print ''[RECALL] No matches.'' w2 else w2))"

text \<open>\<open>Memory.map\<close>\<close>

definition memory_map :: "world \<Rightarrow> pyvalue result" where
  "memory_map w = return_none (map_flows (records (memory w)) w)"

section \<open>Kernel core\<close>

text \<open>The part of \<open>launch\<close> that runs once the match is known.\<close>

definition launch_match :: "env \<Rightarrow> string \<Rightarrow> match \<Rightarrow> world \<Rightarrow> pyvalue result" where
  "launch_match e g m w =
     (let s = match_score m;
          w1 = print (''[MATCH] '' @ match_justification m @ [CHR 0x0A]) w
      in and_then
           (if s \<ge> 9 / 10
            then and_then
                   (anchor e g (primary_module m) s (match_justification m)
                      (sandbox_bridge (primary_module m)
                         (trace_execution g (primary_module m) w1)))
                   (\<lambda>w2. return_none (reflect_outcome g (primary_module m) w2))
            else and_then
                   (anchor e g (backup_module m) s (match_justification m)
                      (sandbox_bridge (primary_module m)
                         (trace_execution g (primary_module m)
                            (tutor_preview (primary_module m) w1))))
                   (\<lambda>w2. return_none (reflect_outcome g (primary_module m) w2)))
           (\<lambda>w3. return_none (meta_mutate g (primary_module m) s w3)))"

definition launch :: "env \<Rightarrow> string \<Rightarrow> world \<Rightarrow> pyvalue result" where
  "launch e user_prompt w =
     (let w1 = print (''[LAUNCH] Andromeda OS v2.0 '' @ en_dash @ '' Polaris Seed'') w;
          w2 = snd (sense_environment e w1);
          mode = detect_mode user_prompt;
          w3 = print (''[MODE] Detected: '' @ mode) w2;
          w4 = print (''[AVATAR] Persona activated: '' @ avatar_switch mode) w3;
          parsed = llm_understand user_prompt;
          g = intent parsed;
          gc = goal_class parsed;
          w5 = print (''[UNDERSTAND] Intent: '' @ g @ '', Class: '' @ gc) w4
      in launch_match e g (llm_match gc) w5)"

definition kernel_recall :: "string \<Rightarrow> world \<Rightarrow> pyvalue result" where
  "kernel_recall q w = and_then (recall q w) return_none"

definition kernel_map :: "world \<Rightarrow> pyvalue result" where
  "kernel_map w = and_then (memory_map w) return_none"

definition chaos :: "env \<Rightarrow> world \<Rightarrow> pyvalue result" where
  "chaos e w = return_none (chaos_kernel e w)"

definition plugin :: "world \<Rightarrow> pyvalue result" where
  "plugin w = return_none (plugin_install w)"

definition dev :: "string \<Rightarrow> string \<Rightarrow> world \<Rightarrow> pyvalue result" where
  "dev m patch w = return_none (edit_scaffold m patch w)"

section \<open>Entry point\<close>

text \<open>
  What one pass of the loop leaves: the loop goes on (\<open>Idle\<close>), it was left by
  \<open>break\<close> (\<open>Stopped\<close>), or an exception nobody catches ended the process.
\<close>

datatype outcome = Idle world | Stopped world | Crashed py_error world

fun outcome_of :: "pyvalue result \<Rightarrow> outcome" where
  "outcome_of (Return v w) = Idle w"
| "outcome_of (Raise e w) = Crashed e w"

fun outcome_world :: "outcome \<Rightarrow> world" where
  "outcome_world (Idle w) = w"
| "outcome_world (Stopped w) = w"
| "outcome_world (Crashed e w) = w"

text \<open>
  The \<open>if\<close>/\<open>elif\<close> chain on one line of input. Unpacking into \<open>mod, patch\<close>
  raises \<open>ValueError\<close> unless the line has exactly two parts.
\<close>

definition dispatch :: "env \<Rightarrow> string \<Rightarrow> world \<Rightarrow> outcome" where
  "dispatch e cmd w =
     (if lower cmd = ''exit'' then Stopped w
      else if startswith (lower cmd) ''recall ''
      then outcome_of (kernel_recall (last (str_split_max (CHR '' '') 1 cmd)) w)
      else if lower cmd = ''map'' then outcome_of (kernel_map w)
      else if lower cmd = ''chaos'' then outcome_of (chaos e w)
      else if lower cmd = ''plugin'' then outcome_of (plugin w)
      else if startswith (lower cmd) ''dev'' \<and> str_contains cmd ''|''
      then (case map strip (str_split (CHR ''|'') cmd) of
              [md, patch] \<Rightarrow> outcome_of (dev (last (str_split (CHR '' '') md)) patch w)
            | _ \<Rightarrow> Crashed ValueError w)
      else outcome_of (launch e cmd w))"

definition prompt_text :: string where
  "prompt_text =
     [CHR 0x0A] @
     ''What would you like to do? (exit | recall <q> | map | chaos | plugin | dev <mod> | <patch>)'' @
     [CHR 0x0A] @ ''> ''"

text \<open>
  The loop, over the lines the user types, each with what the surroundings are at that
  moment. \<open>input\<close> writes the prompt, and raises \<open>EOFError\<close> when no line is left.
\<close>

fun main_loop :: "(env \<times> string) list \<Rightarrow> world \<Rightarrow> outcome" where
  "main_loop [] w = Crashed EOFError (w\<lparr>stdout := stdout w @ [prompt_text]\<rparr>)"
| "main_loop ((e, cmd) # rest) w =
     (case dispatch e cmd (w\<lparr>stdout := stdout w @ [prompt_text]\<rparr>) of
        Idle w' \<Rightarrow> main_loop rest w'
      | Stopped w' \<Rightarrow> Stopped w'
      | Crashed err w' \<Rightarrow> Crashed err w')"

section \<open>Sequences of store operations\<close>

datatype store_call = Anchor string string rat string | Recall string | Map

fun run_call :: "env \<Rightarrow> store_call \<Rightarrow> world \<Rightarrow> pyvalue result" where
  "run_call e (Anchor g m s j) w = anchor e g m s j w"
| "run_call e (Recall q) w = recall q w"
| "run_call e Map w = memory_map w"

text \<open>The calls one after the other; a call that raises ends the sequence.\<close>

fun run_calls :: "(env \<times> store_call) list \<Rightarrow> world \<Rightarrow> pyvalue result" where
  "run_calls [] w = return_none w"
| "run_calls ((e, c) # cs) w = and_then (run_call e c w) (run_calls cs)"

section \<open>Sample surroundings\<close>

definition sample_env :: env where
  "sample_env =
     \<lparr>platform_system = ''Linux'', platform_platform = ''Linux-6.1-x86_64'',
      python_version = ''3.12.0'', time_of_day = ''09:30:00'', day_of_week = ''Monday'',
      uuid4 = ''0f8fad5b-d9cb-469f-a165-70867728950e'',
      now = \<lparr>year = 2025, month = 3, day = 7, hour = 9, minute = 30, second = 0,
             microsecond = 120000\<rparr>,
      can_write = True, random_index = 2\<rparr>"

definition fresh_world :: world where
  "fresh_world = \<lparr>memory = \<lparr>records = []\<rparr>, stdout = [], files = Map.empty\<rparr>"

definition sample_record :: "string \<Rightarrow> session_record" where
  "sample_record g =
     \<lparr>id' = ''0f8fad5b-d9cb-469f-a165-70867728950e'', timestamp = ''2025-03-07T09:30:00.120000'',
      goal = g, module = ''flow.study'', score = 91 / 100,
      justification = ''Matched flow.study for goal_class 'tutoring' with confidence 0.91''\<rparr>"


section \<open>Notions of the specification\<close>



text \<open>Whether the loop goes on after a pass, and the exception that ended it if one did.\<close>

fun is_idle :: "outcome \<Rightarrow> bool" where
  "is_idle (Idle w) = True"
| "is_idle (Stopped w) = False"
| "is_idle (Crashed e w) = False"

fun crash_of :: "outcome \<Rightarrow> py_error option" where
  "crash_of (Idle w) = None"
| "crash_of (Stopped w) = None"
| "crash_of (Crashed e w) = Some e"

text \<open>
  The lines the last branch of the chain takes: those none of the branches before it
  takes.
\<close>

definition default_line :: "string \<Rightarrow> bool" where
  "default_line cmd =
     (lower cmd \<noteq> ''exit'' \<and> \<not> startswith (lower cmd) ''recall '' \<and> lower cmd \<noteq> ''map'' \<and>
      lower cmd \<noteq> ''chaos'' \<and> lower cmd \<noteq> ''plugin'' \<and>
      \<not> (startswith (lower cmd) ''dev'' \<and> str_contains cmd ''|''))"

section \<open>What printing leaves alone\<close>

lemma memory_print [simp]: "memory (print s w) = memory w"
  by (simp add: print_def)

lemma files_print [simp]: "files (print s w) = files w"
  by (simp add: print_def)

lemma memory_prints [simp]: "memory (prints ss w) = memory w"
  by (induction ss arbitrary: w) simp_all

lemma files_prints [simp]: "files (prints ss w) = files w"
  by (induction ss arbitrary: w) simp_all

lemma memory_map_flows [simp]: "memory (map_flows rs w) = memory w"
  by (simp add: map_flows_def)

lemma files_map_flows [simp]: "files (map_flows rs w) = files w"
  by (simp add: map_flows_def)

section \<open>The store only grows\<close>

lemma anchor_records:
  "records (memory (world_of (anchor e g m s j w))) =
     records (memory w) @
     [\<lparr>id' = uuid4 e, timestamp = isoformat (now e), goal = g, module = m, score = s,
       justification = j\<rparr>]"
  by (simp add: anchor_def export_docs_def return_none_def Let_def)

lemma recall_records: "records (memory (world_of (recall q w))) = records (memory w)"
  by (simp add: recall_def return_none_def Let_def)

lemma memory_map_records: "records (memory (world_of (memory_map w))) = records (memory w)"
  by (simp add: memory_map_def return_none_def)

lemma run_call_prefix:
  "prefix (records (memory w)) (records (memory (world_of (run_call e c w))))"
  by (cases c) (simp_all add: anchor_records recall_records memory_map_records)

lemma run_calls_prefix:
  "prefix (records (memory w)) (records (memory (world_of (run_calls cs w))))"
proof (induction cs arbitrary: w)
  case Nil
  show ?case by (simp add: return_none_def)
next
  case (Cons ec cs)
  obtain e c where ec: "ec = (e, c)" by (cases ec)
  have first: "prefix (records (memory w)) (records (memory (world_of (run_call e c w))))"
    by (rule run_call_prefix)
  show ?case
  proof (cases "run_call e c w")
    case (Return v w')
    with first have "prefix (records (memory w)) (records (memory w'))" by simp
    moreover have "prefix (records (memory w')) (records (memory (world_of (run_calls cs w'))))"
      by (rule Cons.IH)
    ultimately show ?thesis using Return ec by (auto intro: prefix_order.trans)
  next
    case (Raise err w')
    with first show ?thesis using ec by simp
  qed
qed

text \<open>
  C9. Whatever sequence of \<open>anchor\<close>, \<open>recall\<close> and \<open>map\<close> calls runs, and whether or
  not one of them raises, the record list from before is a prefix of the record list
  after: no record is changed or removed. \<open>recall\<close> and \<open>map\<close> leave the list as it
  is, and \<open>anchor\<close> puts exactly one record at its end.
\<close>

theorem store_append_only:
  "prefix (records (memory w)) (records (memory (world_of (run_calls cs w)))) \<and>
   records (memory (world_of (run_call e (Recall q) w))) = records (memory w) \<and>
   records (memory (world_of (run_call e Map w))) = records (memory w) \<and>
   records (memory (world_of (run_call e (Anchor g m s j) w))) =
     records (memory w) @
     [\<lparr>id' = uuid4 e, timestamp = isoformat (now e), goal = g, module = m, score = s,
       justification = j\<rparr>]"
  by (simp add: run_calls_prefix anchor_records recall_records memory_map_records)

section \<open>Lower case on ASCII text\<close>

lemma decode_from_ascii:
  "list_all is_ascii s \<Longrightarrow> utf8_decode_from acc s = acc # map of_char s"
  by (induction s arbitrary: acc) (simp_all add: is_ascii_def utf8_lead_def)

lemma decode_ascii: "list_all is_ascii s \<Longrightarrow> utf8_decode s = map of_char s"
  by (cases s) (simp_all add: utf8_decode_def decode_from_ascii is_ascii_def utf8_lead_def)

lemma lower_points_plain:
  "\<forall>n\<in>set ns. n \<noteq> 0x3A3 \<Longrightarrow> lower_points before ns = map lower_point ns"
  by (induction ns arbitrary: before) simp_all

lemma encode_ascii: "\<forall>n\<in>set ns. n < 0x80 \<Longrightarrow> utf8_encode ns = map char_of ns"
  by (induction ns) (simp_all add: utf8_encode_def utf8_encode_point_def)

lemma ascii_lowercase_ascii: "list_all is_ascii ascii_lowercase"
  by (simp add: ascii_lowercase_def is_ascii_def)

lemma lower_char_ascii: "is_ascii c \<Longrightarrow> is_ascii (lower_char c)"
proof (cases "map_of (zip ascii_uppercase ascii_lowercase) c")
  case None
  assume "is_ascii c"
  with None show ?thesis by (simp add: lower_char_def)
next
  case (Some l)
  then have "(c, l) \<in> set (zip ascii_uppercase ascii_lowercase)" by (rule map_of_SomeD)
  then have "l \<in> set ascii_lowercase" by (rule set_zip_rightD)
  with ascii_lowercase_ascii have "is_ascii l" by (simp add: list_all_iff)
  with Some show ?thesis by (simp add: lower_char_def)
qed

lemma lower_point_ascii:
  assumes "is_ascii c"
  shows "lower_point (of_char c) = of_char (lower_char c)" and "lower_point (of_char c) < 0x80"
proof -
  from assms have lt: "(of_char c :: nat) < 0x80" by (simp add: is_ascii_def)
  then show eq: "lower_point (of_char c) = of_char (lower_char c)"
    by (simp add: lower_point_def)
  from lower_char_ascii [OF assms] show "lower_point (of_char c) < 0x80"
    by (simp add: eq is_ascii_def)
qed

lemma lower_ascii:
  assumes "list_all is_ascii s"
  shows "lower s = map lower_char s"
proof -
  have dec: "utf8_decode s = map of_char s" using assms by (rule decode_ascii)
  have "\<forall>n\<in>set (map of_char s :: nat list). n \<noteq> 0x3A3"
    using assms by (auto simp: list_all_iff is_ascii_def)
  then have lp: "lower_points [] (map of_char s) = map lower_point (map of_char s)"
    by (rule lower_points_plain)
  have small: "\<forall>n\<in>set (map lower_point (map of_char s)). n < 0x80"
  proof
    fix n
    assume "n \<in> set (map lower_point (map of_char s))"
    then obtain c where "c \<in> set s" and "n = lower_point (of_char c)" by auto
    with assms show "n < 0x80" by (simp add: list_all_iff lower_point_ascii(2))
  qed
  have "utf8_encode (map lower_point (map of_char s)) =
        map char_of (map lower_point (map of_char s))"
    using small by (rule encode_ascii)
  also have "\<dots> = map lower_char s"
    using assms by (induction s) (simp_all add: lower_point_ascii)
  finally show ?thesis by (simp add: lower_def dec lp)
qed

lemmas lower_defs = lower_ascii is_ascii_def lower_char_def ascii_uppercase_def ascii_lowercase_def








section \<open>Text tests\<close>





section \<open>Recall\<close>









section \<open>The flow map\<close>







section \<open>The default pipeline\<close>

lemma float_repr_91: "float_repr (91 / 100) = ''0.91''"
  by code_simp

lemma llm_match_eq:
  "llm_match gc =
     \<lparr>primary_module = ''flow.study'', backup_module = ''quiz.kernel'', match_score = 91 / 100,
      match_justification =
        ''Matched flow.study for goal_class '' @ [CHR 0x27] @ gc @ [CHR 0x27] @
        '' with confidence 0.91''\<rparr>"
  by (simp add: llm_match_def candidates_def float_repr_91)

lemma memory_trace_execution [simp]: "memory (trace_execution g m w) = memory w"
  by (simp add: trace_execution_def)

lemma memory_sandbox_bridge [simp]: "memory (sandbox_bridge m w) = memory w"
  by (simp add: sandbox_bridge_def)

lemma memory_tutor_preview [simp]: "memory (tutor_preview m w) = memory w"
  by (simp add: tutor_preview_def)

lemma memory_reflect_outcome [simp]: "memory (reflect_outcome g m w) = memory w"
  by (simp add: reflect_outcome_def)

lemma memory_meta_mutate [simp]: "memory (meta_mutate g m s w) = memory w"
  by (simp add: meta_mutate_def Let_def)

lemma memory_sense_environment [simp]: "memory (snd (sense_environment e w)) = memory w"
  by (simp add: sense_environment_def Let_def)

lemma launch_match_records:
  "records (memory (world_of (launch_match e g m w))) =
     records (memory w) @
     [\<lparr>id' = uuid4 e, timestamp = isoformat (now e), goal = g,
       module = (if match_score m \<ge> 9 / 10 then primary_module m else backup_module m),
       score = match_score m, justification = match_justification m\<rparr>]"
proof (cases "can_write e")
  case True
  then show ?thesis
    by (simp add: launch_match_def Let_def anchor_def export_docs_def return_none_def)
next
  case False
  then show ?thesis
    by (simp add: launch_match_def Let_def anchor_def export_docs_def return_none_def)
qed

lemma launch_records:
  "records (memory (world_of (launch e p w))) =
     records (memory w) @
     [\<lparr>id' = uuid4 e, timestamp = isoformat (now e), goal = ''build educational chatbot'',
       module = ''flow.study'', score = 91 / 100,
       justification = ''Matched flow.study for goal_class 'tutoring' with confidence 0.91''\<rparr>]"
  by (simp add: launch_def Let_def launch_match_records llm_match_eq llm_understand_def)

lemma launch_returns: "can_write e \<Longrightarrow> is_idle (outcome_of (launch e p w))"
  by (simp add: launch_def Let_def launch_match_def llm_match_eq anchor_def export_docs_def
      return_none_def)

lemma launch_raises: "\<not> can_write e \<Longrightarrow> crash_of (outcome_of (launch e p w)) = Some OSError"
  by (simp add: launch_def Let_def launch_match_def llm_match_eq anchor_def export_docs_def
      return_none_def)

lemma outcome_world_of [simp]: "outcome_world (outcome_of r) = world_of r"
  by (cases r) simp_all

lemma dispatch_default: "default_line cmd \<Longrightarrow> dispatch e cmd w = outcome_of (launch e cmd w)"
  by (auto simp add: default_line_def dispatch_def)

lemma default_line_study: "default_line ''I want to study for my exam''"
  by (simp add: default_line_def lower_defs)

lemma default_line_dev_studymod: "default_line ''dev studymod''"
  by (simp add: default_line_def lower_defs)

text \<open>
  C6. Once the match is known, the pipeline anchors one record, with the primary module
  if the score is at least 0.9 and with the backup module otherwise. The line
  \<open>I want to study for my exam\<close> is handled by the pipeline; its score is 0.91, which is
  at least 0.9, and exactly one record is anchored, with the primary module
  \<open>flow.study\<close> and the score 0.91.
\<close>

theorem anchored_module_follows_score:
  "records (memory (world_of (launch_match e g m w))) =
     records (memory w) @
     [\<lparr>id' = uuid4 e, timestamp = isoformat (now e), goal = g,
       module = (if match_score m \<ge> 9 / 10 then primary_module m else backup_module m),
       score = match_score m, justification = match_justification m\<rparr>] \<and>
   match_score (llm_match (goal_class (llm_understand ''I want to study for my exam''))) =
     91 / 100 \<and>
   (91 / 100 :: rat) \<ge> 9 / 10 \<and>
   primary_module (llm_match (goal_class (llm_understand ''I want to study for my exam''))) =
     ''flow.study'' \<and>
   dispatch e ''I want to study for my exam'' w =
     outcome_of (launch e ''I want to study for my exam'' w) \<and>
   records (memory (outcome_world (dispatch e ''I want to study for my exam'' w))) =
     records (memory w) @
     [\<lparr>id' = uuid4 e, timestamp = isoformat (now e), goal = ''build educational chatbot'',
       module = ''flow.study'', score = 91 / 100,
       justification = ''Matched flow.study for goal_class 'tutoring' with confidence 0.91''\<rparr>]"
  by (simp add: launch_match_records llm_match_eq dispatch_default default_line_study
      launch_records)

section \<open>A dev line without separator\<close>

text \<open>
  Against C1 as stated: on the line \<open>dev studymod\<close> the store does not stay as it was.
\<close>

theorem dev_without_separator_counterexample:
  "records (memory (outcome_world (dispatch sample_env ''dev studymod'' fresh_world))) \<noteq>
   records (memory fresh_world)"
  by (simp add: dispatch_default default_line_dev_studymod launch_records)

text \<open>
  C1, amended. The line \<open>dev studymod\<close> has no separator, so the dev branch does not take
  it and no usage error exists to report: the line is handled by the default pipeline,
  which appends exactly one record (goal \<open>build educational chatbot\<close>, module
  \<open>flow.study\<close>, score 0.91), and the loop goes on when the record's file can be written.
\<close>

theorem dev_without_separator_runs_pipeline:
  "dispatch e ''dev studymod'' w = outcome_of (launch e ''dev studymod'' w) \<and>
   records (memory (outcome_world (dispatch e ''dev studymod'' w))) =
     records (memory w) @
     [\<lparr>id' = uuid4 e, timestamp = isoformat (now e), goal = ''build educational chatbot'',
       module = ''flow.study'', score = 91 / 100,
       justification = ''Matched flow.study for goal_class 'tutoring' with confidence 0.91''\<rparr>] \<and>
   (can_write e \<longrightarrow> is_idle (dispatch e ''dev studymod'' w))"
  by (simp add: dispatch_default default_line_dev_studymod launch_records launch_returns)

theorem dev_without_separator_runs_pipeline_witness:
  "can_write sample_env \<and> is_idle (dispatch sample_env ''dev studymod'' fresh_world)"
proof -
  have h: "can_write sample_env" by (simp add: sample_env_def)
  with dev_without_separator_runs_pipeline [of sample_env fresh_world] show ?thesis by blast
qed

section \<open>The other commands and the default pipeline\<close>

lemma memory_chaos_kernel [simp]: "memory (chaos_kernel e w) = memory w"
  by (simp add: chaos_kernel_def)

lemma memory_plugin_install [simp]: "memory (plugin_install w) = memory w"
  by (simp add: plugin_install_def Let_def)

lemma dispatch_chaos: "dispatch e ''chaos'' w = Idle (chaos_kernel e w)"
  by (simp add: dispatch_def lower_defs chaos_def return_none_def)

lemma dispatch_plugin: "dispatch e ''plugin'' w = Idle (plugin_install w)"
  by (simp add: dispatch_def lower_defs plugin_def return_none_def)

lemma default_line_hello: "default_line ''hello''"
  by (simp add: default_line_def lower_defs)

text \<open>
  Against C2 as stated: the line \<open>chaos\<close> is not \<open>exit\<close>, does not start with
  \<open>recall \<close>, is not \<open>map\<close> and is no dev command, and after it the store holds what it
  held before: no record was appended.
\<close>

theorem chaos_counterexample:
  "lower ''chaos'' \<noteq> ''exit'' \<and> \<not> startswith (lower ''chaos'') ''recall '' \<and>
   lower ''chaos'' \<noteq> ''map'' \<and>
   \<not> (startswith (lower ''chaos'') ''dev'' \<and> str_contains ''chaos'' ''|'') \<and>
   records (memory (outcome_world (dispatch sample_env ''chaos'' fresh_world))) =
     records (memory fresh_world)"
  by (simp add: dispatch_chaos) (simp add: lower_defs)

text \<open>
  C2, amended. A line that, in lower case, is none of \<open>exit\<close>, \<open>map\<close>, \<open>chaos\<close> and
  \<open>plugin\<close>, does not start with \<open>recall \<close> and is no dev command (starting with
  \<open>dev\<close> and holding a \<open>|\<close>) is handled by the default pipeline, and that appends
  exactly one record to the store. \<open>chaos\<close> and \<open>plugin\<close> are commands of their own:
  they print their lines, append nothing, and the loop goes on.
\<close>

theorem other_lines_run_pipeline:
  "(default_line cmd \<longrightarrow>
      dispatch e cmd w = outcome_of (launch e cmd w) \<and>
      records (memory (outcome_world (dispatch e cmd w))) =
        records (memory w) @
        [\<lparr>id' = uuid4 e, timestamp = isoformat (now e), goal = ''build educational chatbot'',
          module = ''flow.study'', score = 91 / 100,
          justification =
            ''Matched flow.study for goal_class 'tutoring' with confidence 0.91''\<rparr>]) \<and>
   dispatch e ''chaos'' w = Idle (chaos_kernel e w) \<and>
   records (memory (outcome_world (dispatch e ''chaos'' w))) = records (memory w) \<and>
   dispatch e ''plugin'' w = Idle (plugin_install w) \<and>
   records (memory (outcome_world (dispatch e ''plugin'' w))) = records (memory w)"
  by (simp add: dispatch_default launch_records dispatch_chaos dispatch_plugin)

theorem other_lines_run_pipeline_witness:
  "default_line ''hello'' \<and>
   records (memory (outcome_world (dispatch sample_env ''hello'' fresh_world))) =
     [sample_record ''build educational chatbot'']"
proof -
  have h: "default_line ''hello''" by (rule default_line_hello)
  have t: "isoformat (now sample_env) = ''2025-03-07T09:30:00.120000''"
    by (simp add: isoformat_def sample_env_def zero_pad_def str_nat.simps digit_char_def)
  have u: "uuid4 sample_env = ''0f8fad5b-d9cb-469f-a165-70867728950e''"
    by (simp add: sample_env_def)
  from h other_lines_run_pipeline [of "''hello''" sample_env fresh_world]
  have "records (memory (outcome_world (dispatch sample_env ''hello'' fresh_world))) =
        records (memory fresh_world) @
        [\<lparr>id' = uuid4 sample_env, timestamp = isoformat (now sample_env),
          goal = ''build educational chatbot'', module = ''flow.study'', score = 91 / 100,
          justification =
            ''Matched flow.study for goal_class 'tutoring' with confidence 0.91''\<rparr>]"
    by blast
  then have "records (memory (outcome_world (dispatch sample_env ''hello'' fresh_world))) =
        [sample_record ''build educational chatbot'']"
    by (simp only: t u sample_record_def) (simp add: fresh_world_def)
  with h show ?thesis by blast
qed

text \<open>
  C10. Whatever the line, the surroundings and the store, the record the default pipeline
  anchors has the goal \<open>build educational chatbot\<close>, the module \<open>flow.study\<close>, the score
  0.91 and one fixed justification; only its id and its timestamp come from the
  surroundings. So the records of two runs agree on these four fields. The score of the
  match is at least 0.9 for every line, the module is the primary one and differs from the
  backup one: the backup branch is never taken.
\<close>

theorem default_pipeline_ignores_input:
  "records (memory (world_of (launch e p w))) =
     records (memory w) @
     [\<lparr>id' = uuid4 e, timestamp = isoformat (now e), goal = ''build educational chatbot'',
       module = ''flow.study'', score = 91 / 100,
       justification = ''Matched flow.study for goal_class 'tutoring' with confidence 0.91''\<rparr>] \<and>
   goal (last (records (memory (world_of (launch e p w))))) =
     goal (last (records (memory (world_of (launch e' p' w'))))) \<and>
   module (last (records (memory (world_of (launch e p w))))) =
     module (last (records (memory (world_of (launch e' p' w'))))) \<and>
   score (last (records (memory (world_of (launch e p w))))) =
     score (last (records (memory (world_of (launch e' p' w'))))) \<and>
   justification (last (records (memory (world_of (launch e p w))))) =
     justification (last (records (memory (world_of (launch e' p' w'))))) \<and>
   match_score (llm_match (goal_class (llm_understand p))) \<ge> 9 / 10 \<and>
   module (last (records (memory (world_of (launch e p w))))) =
     primary_module (llm_match (goal_class (llm_understand p))) \<and>
   module (last (records (memory (world_of (launch e p w))))) \<noteq>
     backup_module (llm_match (goal_class (llm_understand p)))"
  by (simp add: launch_records llm_match_eq)

end
